theory Spec2Isabelle
  imports Main "HOL-Library.Sublist"
begin

section \<open>Data model of html\_parser.py\<close>

text \<open>
  A Python \<open>str\<close> is a sequence of Unicode code points; the word looked for in the
  paragraphs is Cyrillic, so a text is a list of code points (natural numbers), and
  an ASCII literal of the source is written through \<open>ascii\<close>.
\<close>

type_synonym ustr = "nat list"

definition ascii :: "string \<Rightarrow> ustr" where
  "ascii s = map of_char s"

text \<open>
  The exception raised when \<open>soup.find(...)\<close> returns \<open>None\<close> and a method is
  called on it.
\<close>

datatype error = AttributeError

text \<open>
  One institute block (a bs4 \<open>Tag\<close>) as far as the parser reads it: the text of its
  first \<open>h3\<close> (if any), the texts of its \<open>p\<close> elements in document order, and the
  \<open>href\<close> values of the \<open>a\<close> elements inside its first \<open>div.su-clearfix\<close>
  (\<open>None\<close> when the block has no such \<open>div\<close>).
\<close>

record tag =
  h3 :: "ustr option"
  paragraphs :: "ustr list"
  clearfix :: "ustr list option"

subsection \<open>Python built-ins used by the parser\<close>

text \<open>\<open>s.replace(a, b)\<close> for one-character \<open>a\<close> and \<open>b\<close>.\<close>

definition replace_char :: "nat \<Rightarrow> nat \<Rightarrow> ustr \<Rightarrow> ustr" where
  "replace_char a b s = map (\<lambda>c. if c = a then b else c) s"

text \<open>\<open>needle in hay\<close> on strings: \<open>contains hay needle\<close>.\<close>

fun contains :: "'a list \<Rightarrow> 'a list \<Rightarrow> bool" where
  "contains [] needle = (needle = [])"
| "contains (c # cs) needle = (prefix needle (c # cs) \<or> contains cs needle)"

text \<open>The slices \<open>xs[:k]\<close> and \<open>xs[k:]\<close>; a negative bound counts from the end.\<close>

definition slice_to :: "'a list \<Rightarrow> int \<Rightarrow> 'a list" where
  "slice_to xs k =
     (if k < 0 then take (nat (int (length xs) + k)) xs else take (nat k) xs)"

definition slice_from :: "'a list \<Rightarrow> int \<Rightarrow> 'a list" where
  "slice_from xs k =
     (if k < 0 then drop (nat (int (length xs) + k)) xs else drop (nat k) xs)"

text \<open>
  \<open>str.lower\<close> is a built-in over the whole of Unicode; every function below takes it
  as the parameter \<open>lw\<close>. \<open>lower_basic\<close> is the instance used on concrete inputs:
  it lowers the Basic Latin and the basic Cyrillic capitals and leaves every other
  code point alone.
\<close>

definition lower_basic :: "ustr \<Rightarrow> ustr" where
  "lower_basic s =
     map (\<lambda>c. if 65 \<le> c \<and> c \<le> 90 then c + 32
              else if 1040 \<le> c \<and> c \<le> 1071 then c + 32 else c) s"

subsection \<open>Semester marker locator\<close>

text \<open>The Cyrillic word searched for in the paragraphs (U+0441 U+0435 U+043C U+0435 U+0441 U+0442 U+0440).\<close>

definition semestr :: ustr where
  "semestr = [1089, 1077, 1084, 1077, 1089, 1090, 1088]"

definition get_semester_index :: "(ustr \<Rightarrow> ustr) \<Rightarrow> tag \<Rightarrow> nat list" where
  "get_semester_index lw soup =
     (let indexes = map (\<lambda>paragraph. lw (replace_char 160 32 paragraph)) (paragraphs soup)
      in filter (\<lambda>index. contains (indexes ! index) semestr) [0..<length indexes])"

subsection \<open>Link extractor\<close>

text \<open>
  Modelled from the spec: \<open>utils.get_extension\<close> is not among the sources. The spec
  gives it as "lower-cased substring after the final '.'; none if no '.' present".
  \<open>after_last_dot\<close> is its first half: it walks the string once, restarting the
  suffix at every dot.
\<close>

fun after_last_dot :: "ustr \<Rightarrow> ustr option \<Rightarrow> ustr option" where
  "after_last_dot [] acc = acc"
| "after_last_dot (c # cs) acc =
     (if c = 46 then after_last_dot cs (Some [])
      else after_last_dot cs (map_option (\<lambda>s. s @ [c]) acc))"

text \<open>
  Modelled from the spec: \<open>utils.get_extension\<close>, missing from the sources, as the
  spec's \<open>extensionOf\<close>: the text after the last dot, lower-cased, and \<open>None\<close>
  for a string without a dot.
\<close>

definition get_extension :: "(ustr \<Rightarrow> ustr) \<Rightarrow> ustr \<Rightarrow> ustr option" where
  "get_extension lw url = map_option lw (after_last_dot url None)"

definition get_files_url :: "(ustr \<Rightarrow> ustr) \<Rightarrow> tag \<Rightarrow> error + ustr list" where
  "get_files_url lw soup =
     (case clearfix soup of
        None \<Rightarrow> Inl AttributeError
      | Some links \<Rightarrow>
          Inr (filter (\<lambda>link. get_extension lw link = Some (ascii ''xls'')
                           \<or> get_extension lw link = Some (ascii ''xlsx'')) links))"

subsection \<open>Segmentation\<close>

definition get_schedule_from_first_semester ::
    "(ustr \<Rightarrow> ustr) \<Rightarrow> tag \<Rightarrow> error + ustr list" where
  "get_schedule_from_first_semester lw soup =
     (let indexes = get_semester_index lw soup
      in if length indexes = 2
         then map_sum id (\<lambda>links. slice_to links (int (last indexes) - int (hd indexes) - 1))
                (get_files_url lw soup)
         else Inr [])"

definition get_schedule_from_second_semester ::
    "(ustr \<Rightarrow> ustr) \<Rightarrow> tag \<Rightarrow> error + ustr list" where
  "get_schedule_from_second_semester lw soup =
     (let indexes = get_semester_index lw soup
      in if length indexes = 2
         then map_sum id (\<lambda>links. slice_from links (int (last indexes) - 1))
                (get_files_url lw soup)
         else if length indexes = 1
         then map_sum id (\<lambda>links. slice_from links (int (hd indexes) + 1))
                (get_files_url lw soup)
         else Inr [])"

subsection \<open>The run over all institutes\<close>

text \<open>
  What \<open>requests.get\<close> and the parse of the page give: the status code, and the
  \<open>div.su-spoiler\<close> blocks found inside the first \<open>div.su-column-content\<close>
  (\<open>None\<close> when the page has no such \<open>div\<close>).
\<close>

record response =
  status_code :: int
  su_column_content :: "tag list option"

definition check_response :: "int \<Rightarrow> bool" where
  "check_response response = (if response = 200 then True else False)"

definition get_base_block :: "response \<Rightarrow> error + tag list option" where
  "get_base_block html =
     (if \<not> check_response (status_code html) then Inr None
      else case su_column_content html of
             None \<Rightarrow> Inl AttributeError
           | Some blocks \<Rightarrow> Inr (Some blocks))"

definition get_institute_name :: "tag \<Rightarrow> error + ustr" where
  "get_institute_name soup = (case h3 soup of None \<Rightarrow> Inl AttributeError | Some t \<Rightarrow> Inr t)"

definition BASE_URL :: ustr where
  "BASE_URL = ascii ''https://www.sevsu.ru''"

text \<open>
  The module \<open>system\<close> is a collaborator: \<open>make_directory\<close> and \<open>save_file\<close>
  are recorded in the order they are called. \<open>file_index\<close> stands for
  \<open>str(index)\<close>.
\<close>

record saved_file =
  file_path :: ustr
  file_index :: nat
  file_url :: ustr
  file_extension :: "ustr option"

record world =
  directories :: "ustr list"
  saved :: "saved_file list"

datatype outcome = FetchFailed | Finished | Raised error

fun save_items ::
    "(ustr \<Rightarrow> ustr) \<Rightarrow> ustr \<Rightarrow> nat \<Rightarrow> ustr list \<Rightarrow> world \<Rightarrow> world" where
  "save_items lw p i [] w = w"
| "save_items lw p i (item # items) w =
     save_items lw p (Suc i) items
       (w\<lparr>saved := saved w @
            [\<lparr>file_path = p, file_index = i, file_url = item,
              file_extension = get_extension lw item\<rparr>]\<rparr>)"

text \<open>
  One turn of the loop of \<open>main\<close>. \<open>semester\<close> is what
  \<open>utils.get_current_semester()\<close> answers and \<open>translit\<close> is
  \<open>utils.transliteration_to_en_from_ru\<close>, both collaborators.
\<close>

definition process_tag ::
    "(ustr \<Rightarrow> ustr) \<Rightarrow> int \<Rightarrow> (ustr \<Rightarrow> ustr) \<Rightarrow> tag \<Rightarrow> world \<Rightarrow> error + world" where
  "process_tag lw semester translit t w =
     (case get_institute_name t of
        Inl e \<Rightarrow> Inl e
      | Inr name \<Rightarrow>
          (case (if semester = 1 then get_schedule_from_first_semester lw t
                 else get_schedule_from_second_semester lw t) of
             Inl e \<Rightarrow> Inl e
           | Inr links \<Rightarrow>
               (let a = map (\<lambda>link. BASE_URL @ link) links
                in if a \<noteq> [] then Inr (save_items lw (translit name) 0 a w) else Inr w)))"

fun for_tags ::
    "(ustr \<Rightarrow> ustr) \<Rightarrow> int \<Rightarrow> (ustr \<Rightarrow> ustr) \<Rightarrow> tag list \<Rightarrow> world \<Rightarrow> world \<times> outcome" where
  "for_tags lw semester translit [] w = (w, Finished)"
| "for_tags lw semester translit (t # ts) w =
     (case process_tag lw semester translit t w of
        Inl e \<Rightarrow> (w, Raised e)
      | Inr w' \<Rightarrow> for_tags lw semester translit ts w')"

definition main ::
    "(ustr \<Rightarrow> ustr) \<Rightarrow> int \<Rightarrow> (ustr \<Rightarrow> ustr) \<Rightarrow> response \<Rightarrow> world \<Rightarrow> world \<times> outcome" where
  "main lw semester translit html w =
     (case get_base_block html of
        Inl e \<Rightarrow> (w, Raised e)
      | Inr None \<Rightarrow> (w, FetchFailed)
      | Inr (Some base) \<Rightarrow>
          for_tags lw semester translit base
            (w\<lparr>directories := directories w @ [ascii ''General'']\<rparr>))"

section \<open>Data model of db.py\<close>

text \<open>
  \<open>**kwargs\<close> is a dictionary in insertion order: an association list. \<open>fmt\<close> is
  the formatting of a value inside an f-string.
\<close>

fun insert_loop :: "('v \<Rightarrow> ustr) \<Rightarrow> (ustr \<times> 'v) list \<Rightarrow> ustr \<times> ustr \<Rightarrow> ustr \<times> ustr" where
  "insert_loop fmt [] (request, temp) = (request, temp)"
| "insert_loop fmt ((param, val) # kwargs) (request, temp) =
     insert_loop fmt kwargs
       (request @ param @ ascii '', '', temp @ [39] @ fmt val @ [39] @ ascii '', '')"

definition insert_datas_to_db :: "('v \<Rightarrow> ustr) \<Rightarrow> ustr \<Rightarrow> (ustr \<times> 'v) list \<Rightarrow> ustr" where
  "insert_datas_to_db fmt name kwargs =
     (case insert_loop fmt kwargs (ascii ''INSERT INTO '' @ name @ ascii '' ('', []) of
        (request, temp) \<Rightarrow>
          (let request' = slice_to request (- 2) @ ascii '')'' @ [10] @ ascii ''VALUES ('' @ temp
           in slice_to request' (- 2) @ ascii '');''))"

text \<open>
  The statement written out with a join: the keys, then the quoted values, each list
  separated by a comma and a space.
\<close>

fun join :: "ustr \<Rightarrow> ustr list \<Rightarrow> ustr" where
  "join sep [] = []"
| "join sep [x] = x"
| "join sep (x # y # ys) = x @ sep @ join sep (y # ys)"

definition insert_statement :: "('v \<Rightarrow> ustr) \<Rightarrow> ustr \<Rightarrow> (ustr \<times> 'v) list \<Rightarrow> ustr" where
  "insert_statement fmt name kwargs =
     ascii ''INSERT INTO '' @ name @ ascii '' ('' @ join (ascii '', '') (map fst kwargs)
       @ ascii '')'' @ [10] @ ascii ''VALUES (''
       @ join (ascii '', '') (map (\<lambda>kv. [39] @ fmt (snd kv) @ [39]) kwargs) @ ascii '');''"

section \<open>Example pages\<close>

definition link_a :: ustr where "link_a = ascii ''/a.xls''"
definition link_b :: ustr where "link_b = ascii ''/b.XLS''"
definition link_c :: ustr where "link_c = ascii ''/c.xlsx''"
definition link_d :: ustr where "link_d = ascii ''/d.xls''"
definition link_e :: ustr where "link_e = ascii ''/e.xlsx''"

text \<open>Two markers, at paragraphs 1 and 3, and five links.\<close>

definition soup_two :: tag where
  "soup_two =
     \<lparr>h3 = Some (ascii ''IT''),
      paragraphs = [ascii ''intro'', ascii ''1 '' @ semestr, ascii ''mid'', ascii ''2 '' @ semestr],
      clearfix = Some [link_a, link_b, link_c, link_d, link_e]\<rparr>"

text \<open>Two markers, the first at paragraph 0.\<close>

definition soup_two0 :: tag where
  "soup_two0 =
     \<lparr>h3 = Some (ascii ''IT''),
      paragraphs = [ascii ''1 '' @ semestr, ascii ''mid'', ascii ''2 '' @ semestr],
      clearfix = Some [link_a, link_b, link_c]\<rparr>"

text \<open>One marker, at paragraph 0.\<close>

definition soup_one :: tag where
  "soup_one =
     \<lparr>h3 = Some (ascii ''Law''),
      paragraphs = [ascii ''2 '' @ semestr],
      clearfix = Some [link_a, link_b]\<rparr>"

text \<open>No marker.\<close>

definition soup_zero :: tag where
  "soup_zero =
     \<lparr>h3 = Some (ascii ''Arts''),
      paragraphs = [ascii ''soon''],
      clearfix = Some [link_a, link_b, link_c]\<rparr>"

text \<open>Three markers, at paragraphs 0, 1 and 3.\<close>

definition soup_three :: tag where
  "soup_three =
     \<lparr>h3 = Some (ascii ''Sea''),
      paragraphs = [ascii ''1 '' @ semestr, semestr, ascii ''mid'', ascii ''2 '' @ semestr],
      clearfix = Some [link_a, link_b, link_c]\<rparr>"

text \<open>
  Capitals and a non-breaking space in a marker (paragraph 1), a paragraph without
  the word, and links the filter drops.
\<close>

definition soup_mixed :: tag where
  "soup_mixed =
     \<lparr>h3 = Some (ascii ''Mix''),
      paragraphs = [ascii ''intro'', [50, 160, 1057, 1045, 1052, 1045, 1057, 1058, 1056],
                    ascii ''semester''],
      clearfix = Some [link_a, ascii ''/readme.pdf'', link_b, ascii ''nodot'',
                       ascii ''/x.xlsx.bak'', link_c]\<rparr>"

text \<open>One marker and no link container.\<close>

definition soup_broken :: tag where
  "soup_broken =
     \<lparr>h3 = Some (ascii ''Bad''), paragraphs = [ascii ''2 '' @ semestr], clearfix = None\<rparr>"

definition page_three :: response where
  "page_three = \<lparr>status_code = 200, su_column_content = Some [soup_one, soup_broken, soup_two0]\<rparr>"

definition page_404 :: response where
  "page_404 = \<lparr>status_code = 404, su_column_content = Some [soup_one, soup_two0]\<rparr>"

definition world0 :: world where
  "world0 = \<lparr>directories = [], saved = []\<rparr>"

section \<open>Facts about the building blocks\<close>

lemma contains_iff: "contains hay needle \<longleftrightarrow> (\<exists>pre post. hay = pre @ needle @ post)"
proof (induction hay)
  case Nil
  then show ?case by auto
next
  case (Cons c cs)
  show ?case
  proof
    assume "contains (c # cs) needle"
    then consider "prefix needle (c # cs)" | "contains cs needle" by auto
    then show "\<exists>pre post. c # cs = pre @ needle @ post"
    proof cases
      case 1
      then obtain post where "c # cs = needle @ post" by (auto simp: prefix_def)
      then have "c # cs = [] @ needle @ post" by simp
      then show ?thesis by blast
    next
      case 2
      with Cons.IH obtain pre post where "cs = pre @ needle @ post" by blast
      then have "c # cs = (c # pre) @ needle @ post" by simp
      then show ?thesis by blast
    qed
  next
    assume "\<exists>pre post. c # cs = pre @ needle @ post"
    then obtain pre post where eq: "c # cs = pre @ needle @ post" by blast
    show "contains (c # cs) needle"
    proof (cases pre)
      case Nil
      with eq have "prefix needle (c # cs)" by (simp add: prefix_def)
      then show ?thesis by simp
    next
      case (Cons d pre')
      with eq have "cs = pre' @ needle @ post" by simp
      with Cons.IH have "contains cs needle" by blast
      then show ?thesis by simp
    qed
  qed
qed

lemma get_semester_index_filter:
  "get_semester_index lw soup =
     filter (\<lambda>i. contains (lw (replace_char 160 32 (paragraphs soup ! i))) semestr)
       [0..<length (paragraphs soup)]"
  unfolding get_semester_index_def Let_def
  by (auto intro!: filter_cong)

lemma get_semester_index_ascending: "sorted_wrt (<) (get_semester_index lw soup)"
  unfolding get_semester_index_filter
  by (rule sorted_wrt_filter) simp

lemma get_semester_index_pair:
  assumes "get_semester_index lw soup = [f, l]"
  shows "f < l"
  using get_semester_index_ascending [of lw soup] assms by simp

lemma after_last_dot_no_dot:
  "46 \<notin> set cs \<Longrightarrow> after_last_dot cs acc = map_option (\<lambda>s. s @ cs) acc"
  by (induction cs arbitrary: acc) (auto simp: option.map_comp comp_def option.map_ident)

lemma after_last_dot_append:
  "46 \<notin> set suf \<Longrightarrow> after_last_dot (pre @ 46 # suf) acc = Some suf"
  by (induction pre arbitrary: acc) (simp_all add: after_last_dot_no_dot)

lemma after_last_dot_Some:
  "after_last_dot url None = Some suf \<longleftrightarrow> (\<exists>pre. url = pre @ 46 # suf \<and> 46 \<notin> set suf)"
proof
  assume h: "after_last_dot url None = Some suf"
  have "46 \<in> set url"
  proof (rule ccontr)
    assume "46 \<notin> set url"
    then have "after_last_dot url None = None" by (simp add: after_last_dot_no_dot)
    with h show False by simp
  qed
  then obtain pre s where "url = pre @ 46 # s" "46 \<notin> set s"
    by (auto dest: split_list_last)
  moreover from this h have "s = suf" by (simp add: after_last_dot_append)
  ultimately show "\<exists>pre. url = pre @ 46 # suf \<and> 46 \<notin> set suf" by blast
next
  assume "\<exists>pre. url = pre @ 46 # suf \<and> 46 \<notin> set suf"
  then show "after_last_dot url None = Some suf" by (auto simp: after_last_dot_append)
qed

lemma get_extension_iff:
  "get_extension lw url = Some e \<longleftrightarrow>
     (\<exists>pre suf. url = pre @ 46 # suf \<and> 46 \<notin> set suf \<and> lw suf = e)"
proof -
  have "get_extension lw url = Some e \<longleftrightarrow> (\<exists>suf. after_last_dot url None = Some suf \<and> lw suf = e)"
    by (auto simp: get_extension_def)
  then show ?thesis unfolding after_last_dot_Some by blast
qed

lemma subseq_take_drop: "a \<le> b \<Longrightarrow> subseq (take a L @ drop b L) L"
proof -
  assume ab: "a \<le> b"
  have "drop b L = drop (b - a) (drop a L)" using ab by simp
  then have "subseq (drop b L) (drop a L)" by (metis subseq_drop_many append_take_drop_id subseq_order.order_refl)
  then have "subseq (take a L @ drop b L) (take a L @ drop a L)"
    by (rule list_emb_append_mono [OF subseq_order.order_refl])
  then show ?thesis by simp
qed

lemma two_markers_first:
  assumes "get_semester_index lw soup = [f, l]" "get_files_url lw soup = Inr L"
  shows "get_schedule_from_first_semester lw soup = Inr (take (l - f - 1) L)"
proof -
  have "f < l" using assms(1) by (rule get_semester_index_pair)
  then have "nat (int l - int f - 1) = l - f - 1" "\<not> int l - int f - 1 < 0" by auto
  then show ?thesis using assms
    by (simp add: get_schedule_from_first_semester_def slice_to_def)
qed

lemma two_markers_second:
  assumes "get_semester_index lw soup = [f, l]" "get_files_url lw soup = Inr L"
  shows "get_schedule_from_second_semester lw soup = Inr (drop (l - 1) L)"
proof -
  have "f < l" using assms(1) by (rule get_semester_index_pair)
  then have "nat (int l - 1) = l - 1" "\<not> int l - 1 < 0" by auto
  then show ?thesis using assms
    by (simp add: get_schedule_from_second_semester_def slice_from_def)
qed

lemma other_markers:
  assumes "length (get_semester_index lw soup) \<noteq> 2"
  shows "get_schedule_from_first_semester lw soup = Inr []"
    and "length (get_semester_index lw soup) \<noteq> 1 \<Longrightarrow> get_schedule_from_second_semester lw soup = Inr []"
  using assms
  by (simp_all add: get_schedule_from_first_semester_def get_schedule_from_second_semester_def)

lemma one_marker_second:
  assumes "get_semester_index lw soup = [m]" "get_files_url lw soup = Inr L"
  shows "get_schedule_from_second_semester lw soup = Inr (drop (Suc m) L)"
  using assms
  by (simp add: get_schedule_from_second_semester_def slice_from_def nat_add_distrib)

lemma for_tags_never_fetch_failed:
  "snd (for_tags lw semester translit ts w) \<noteq> FetchFailed"
  by (induction ts arbitrary: w) (auto split: sum.splits)

lemma for_tags_append:
  "for_tags lw semester translit pre w = (w', Finished) \<Longrightarrow>
     for_tags lw semester translit (pre @ rest) w = for_tags lw semester translit rest w'"
  by (induction pre arbitrary: w) (auto split: sum.splits)

lemma process_tag_missing_container:
  assumes "clearfix bad = None"
      and "length (get_semester_index lw bad) = 2
           \<or> (semester \<noteq> 1 \<and> length (get_semester_index lw bad) = 1)"
  shows "process_tag lw semester translit bad w = Inl AttributeError"
proof -
  have g: "get_files_url lw bad = Inl AttributeError"
    using assms(1) by (simp add: get_files_url_def)
  show ?thesis
  proof (cases "get_institute_name bad")
    case (Inl e)
    then show ?thesis by (cases e) (simp add: process_tag_def)
  next
    case (Inr name)
    then show ?thesis using assms(2) g
      by (auto simp: process_tag_def get_schedule_from_first_semester_def
            get_schedule_from_second_semester_def)
  qed
qed

lemma insert_loop_concat:
  "insert_loop fmt kwargs (request, temp) =
     (request @ concat (map (\<lambda>kv. fst kv @ ascii '', '') kwargs),
      temp @ concat (map (\<lambda>kv. ([39] @ fmt (snd kv) @ [39]) @ ascii '', '') kwargs))"
  by (induction kwargs arbitrary: request temp) auto

lemma concat_sep_join:
  "xs \<noteq> [] \<Longrightarrow> concat (map (\<lambda>x. x @ sep) xs) = join sep xs @ sep"
  by (induction sep xs rule: join.induct) simp_all

lemma slice_to_minus_two:
  "length sep = 2 \<Longrightarrow> slice_to (s @ sep) (- 2) = s"
  by (simp add: slice_to_def)

section \<open>Segmentation with zero markers and with one marker\<close>

text \<open>
  C5. When the marker index list of a fragment is empty, both semester functions return
  the empty list, whatever the links of the fragment are (the link container is not
  even read).
\<close>

theorem zero_markers_both_empty:
  "get_semester_index lw soup = [] \<Longrightarrow>
     get_schedule_from_first_semester lw soup = Inr []
   \<and> get_schedule_from_second_semester lw soup = Inr []"
  by (simp add: get_schedule_from_first_semester_def get_schedule_from_second_semester_def)

theorem zero_markers_both_empty_witness:
  "get_semester_index lower_basic soup_zero = []
   \<and> get_files_url lower_basic soup_zero = Inr [link_a, link_b, link_c]
   \<and> get_schedule_from_first_semester lower_basic soup_zero = Inr []
   \<and> get_schedule_from_second_semester lower_basic soup_zero = Inr []"
proof -
  have m: "get_semester_index lower_basic soup_zero = []" by code_simp
  have l: "get_files_url lower_basic soup_zero = Inr [link_a, link_b, link_c]" by code_simp
  from m l zero_markers_both_empty [OF m] show ?thesis by simp
qed

text \<open>
  C4. When the marker index list of a fragment has exactly one entry \<open>m\<close> and the
  link extractor gives the sequence \<open>L\<close>, the first-semester links are empty and
  the second-semester links are the links of \<open>L\<close> at positions strictly greater
  than \<open>m\<close>.
\<close>

theorem one_marker_split:
  "get_semester_index lw soup = [m] \<Longrightarrow> get_files_url lw soup = Inr L \<Longrightarrow>
     get_schedule_from_first_semester lw soup = Inr []
   \<and> get_schedule_from_second_semester lw soup = Inr (drop (m + 1) L)"
  by (simp add: get_schedule_from_first_semester_def get_schedule_from_second_semester_def
        slice_from_def nat_add_distrib)

theorem one_marker_split_witness:
  "get_semester_index lower_basic soup_one = [0]
   \<and> get_files_url lower_basic soup_one = Inr [link_a, link_b]
   \<and> get_schedule_from_first_semester lower_basic soup_one = Inr []
   \<and> get_schedule_from_second_semester lower_basic soup_one = Inr [link_b]"
proof -
  have m: "get_semester_index lower_basic soup_one = [0]" by code_simp
  have l: "get_files_url lower_basic soup_one = Inr [link_a, link_b]" by code_simp
  from m l one_marker_split [OF m l] show ?thesis by simp
qed

section \<open>Segmentation with two markers and with more\<close>

text \<open>
  C1. With two markers at paragraphs 1 and 3 (gap 2) and the five links
  \<open>a, b, c, d, e\<close>, the first-semester function returns \<open>L[:gap-1] = [a]\<close>, but
  the second-semester function slices from \<open>indexes[-1] - 1 = 2\<close>, not from
  \<open>gap - 1 = 1\<close>: it returns \<open>[c, d, e]\<close> where \<open>L[gap-1:]\<close> is
  \<open>[b, c, d, e]\<close>, and the link \<open>b\<close> is in neither result.
\<close>

theorem two_markers_second_semester_drops_link:
  "get_semester_index lower_basic soup_two = [1, 3]
   \<and> get_files_url lower_basic soup_two = Inr [link_a, link_b, link_c, link_d, link_e]
   \<and> get_schedule_from_first_semester lower_basic soup_two = Inr [link_a]
   \<and> get_schedule_from_second_semester lower_basic soup_two = Inr [link_c, link_d, link_e]
   \<and> slice_from [link_a, link_b, link_c, link_d, link_e] (3 - 1 - 1)
       = [link_b, link_c, link_d, link_e]"
  by code_simp

text \<open>
  C3, as the code has it. When the marker index list of a fragment has more than two
  entries, both semester functions return the empty list: the two-marker rule is
  applied to lists of length two only.
\<close>

theorem more_than_two_markers_both_empty:
  "2 < length (get_semester_index lw soup) \<Longrightarrow>
     get_schedule_from_first_semester lw soup = Inr []
   \<and> get_schedule_from_second_semester lw soup = Inr []"
  by (simp add: get_schedule_from_first_semester_def get_schedule_from_second_semester_def)

theorem more_than_two_markers_both_empty_witness:
  "2 < length (get_semester_index lower_basic soup_three)
   \<and> get_schedule_from_first_semester lower_basic soup_three = Inr []
   \<and> get_schedule_from_second_semester lower_basic soup_three = Inr []"
proof -
  have m: "2 < length (get_semester_index lower_basic soup_three)" by code_simp
  from m more_than_two_markers_both_empty [OF m] show ?thesis by simp
qed

text \<open>
  C3, as stated, fails: with markers at paragraphs 0, 1 and 3 and the links
  \<open>a, b, c\<close>, the two-marker rule on the first and the last index would give
  \<open>[a, b]\<close> and \<open>[c]\<close>; the functions return neither.
\<close>

theorem three_markers_not_two_marker_rule:
  "get_semester_index lower_basic soup_three = [0, 1, 3]
   \<and> get_files_url lower_basic soup_three = Inr [link_a, link_b, link_c]
   \<and> slice_to [link_a, link_b, link_c] (3 - 0 - 1) = [link_a, link_b]
   \<and> slice_from [link_a, link_b, link_c] (3 - 0 - 1) = [link_c]
   \<and> get_schedule_from_first_semester lower_basic soup_three \<noteq> Inr [link_a, link_b]
   \<and> get_schedule_from_second_semester lower_basic soup_three \<noteq> Inr [link_c]"
  by code_simp

section \<open>Which links the two results keep\<close>

text \<open>
  C2, as the code has it. For every fragment whose link extractor gives the sequence
  \<open>L\<close>, the first-semester links are a prefix \<open>L[:a]\<close> and the second-semester
  links a suffix \<open>L[b:]\<close> with \<open>a \<le> b\<close>: the two results take disjoint positions
  of \<open>L\<close> and their concatenation is a subsequence of \<open>L\<close>. With exactly one
  marker \<open>m\<close> the links lost are exactly those at positions up to \<open>m\<close>
  (\<open>a = 0\<close>, \<open>b = m + 1\<close>); with no marker or more than two markers every link
  is lost (\<open>a = 0\<close>, \<open>b\<close> at least the length of \<open>L\<close>); with two markers of
  which the first is paragraph 0 no link is lost (\<open>a = b\<close>).
\<close>

theorem semester_links_prefix_and_suffix:
  assumes L: "get_files_url lw soup = Inr L"
  shows "\<exists>a b. a \<le> b
           \<and> get_schedule_from_first_semester lw soup = Inr (take a L)
           \<and> get_schedule_from_second_semester lw soup = Inr (drop b L)
           \<and> subseq (take a L @ drop b L) L
           \<and> (\<forall>m. get_semester_index lw soup = [m] \<longrightarrow> a = 0 \<and> b = Suc m)
           \<and> (length (get_semester_index lw soup) = 0 \<or> 2 < length (get_semester_index lw soup)
                \<longrightarrow> a = 0 \<and> length L \<le> b)
           \<and> (\<forall>l. get_semester_index lw soup = [0, l] \<longrightarrow> a = b)"
proof -
  let ?idx = "get_semester_index lw soup"
  consider (two) f l where "?idx = [f, l]" | (one) m where "?idx = [m]"
    | (other) "length ?idx \<noteq> 2" "length ?idx \<noteq> 1"
    by (cases ?idx rule: list.exhaust; cases "tl ?idx"; cases "tl (tl ?idx)") auto
  then show ?thesis
  proof cases
    case two
    let ?a = "l - f - 1" and ?b = "l - 1"
    have ab: "?a \<le> ?b" by simp
    have "?a \<le> ?b
        \<and> get_schedule_from_first_semester lw soup = Inr (take ?a L)
        \<and> get_schedule_from_second_semester lw soup = Inr (drop ?b L)
        \<and> subseq (take ?a L @ drop ?b L) L
        \<and> (\<forall>m. ?idx = [m] \<longrightarrow> ?a = 0 \<and> ?b = Suc m)
        \<and> (length ?idx = 0 \<or> 2 < length ?idx \<longrightarrow> ?a = 0 \<and> length L \<le> ?b)
        \<and> (\<forall>l'. ?idx = [0, l'] \<longrightarrow> ?a = ?b)"
      using two two_markers_first [OF two L] two_markers_second [OF two L]
        subseq_take_drop [OF ab, of L] by simp
    then show ?thesis by blast
  next
    case one
    have "0 \<le> Suc m
        \<and> get_schedule_from_first_semester lw soup = Inr (take 0 L)
        \<and> get_schedule_from_second_semester lw soup = Inr (drop (Suc m) L)
        \<and> subseq (take 0 L @ drop (Suc m) L) L
        \<and> (\<forall>m'. ?idx = [m'] \<longrightarrow> (0::nat) = 0 \<and> Suc m = Suc m')
        \<and> (length ?idx = 0 \<or> 2 < length ?idx \<longrightarrow> (0::nat) = 0 \<and> length L \<le> Suc m)
        \<and> (\<forall>l'. ?idx = [0, l'] \<longrightarrow> 0 = Suc m)"
      using one one_marker_second [OF one L] other_markers(1) [of lw soup]
        subseq_take_drop [of 0 "Suc m" L] by simp
    then show ?thesis by blast
  next
    case other
    have "0 \<le> length L
        \<and> get_schedule_from_first_semester lw soup = Inr (take 0 L)
        \<and> get_schedule_from_second_semester lw soup = Inr (drop (length L) L)
        \<and> subseq (take 0 L @ drop (length L) L) L
        \<and> (\<forall>m'. ?idx = [m'] \<longrightarrow> (0::nat) = 0 \<and> length L = Suc m')
        \<and> (length ?idx = 0 \<or> 2 < length ?idx \<longrightarrow> (0::nat) = 0 \<and> length L \<le> length L)
        \<and> (\<forall>l'. ?idx = [0, l'] \<longrightarrow> 0 = length L)"
      using other other_markers [of lw soup] by auto
    then show ?thesis by blast
  qed
qed

theorem semester_links_prefix_and_suffix_witness:
  "get_files_url lower_basic soup_two0 = Inr [link_a, link_b, link_c]
   \<and> get_semester_index lower_basic soup_two0 = [0, 2]
   \<and> (\<exists>a. get_schedule_from_first_semester lower_basic soup_two0
            = Inr (take a [link_a, link_b, link_c])
          \<and> get_schedule_from_second_semester lower_basic soup_two0
            = Inr (drop a [link_a, link_b, link_c]))"
proof -
  have l: "get_files_url lower_basic soup_two0 = Inr [link_a, link_b, link_c]" by code_simp
  have m: "get_semester_index lower_basic soup_two0 = [0, 2]" by code_simp
  from semester_links_prefix_and_suffix [OF l] m l show ?thesis by auto
qed

text \<open>
  C2, as stated, fails: a fragment without a marker has three links, and all three are
  in neither result although there is not exactly one marker.
\<close>

theorem zero_markers_links_dropped:
  "get_semester_index lower_basic soup_zero = []
   \<and> get_files_url lower_basic soup_zero = Inr [link_a, link_b, link_c]
   \<and> get_schedule_from_first_semester lower_basic soup_zero = Inr []
   \<and> get_schedule_from_second_semester lower_basic soup_zero = Inr []"
  by code_simp

section \<open>The marker locator and the link extractor\<close>

text \<open>
  C6. The marker locator returns, strictly ascending, exactly the indices (from 0, in
  document order) of the paragraphs whose text, after the non-breaking spaces are
  replaced by spaces and the result is lower-cased, has the Cyrillic word as a
  substring; nothing else is in the list. The locator is a function of the fragment
  alone: it reads the paragraphs and does nothing else.
\<close>

theorem get_semester_index_exact:
  "sorted_wrt (<) (get_semester_index lw soup)
   \<and> set (get_semester_index lw soup) =
       {i. i < length (paragraphs soup)
           \<and> (\<exists>pre post. lw (replace_char 160 32 (paragraphs soup ! i)) = pre @ semestr @ post)}"
proof
  show "sorted_wrt (<) (get_semester_index lw soup)" by (rule get_semester_index_ascending)
  show "set (get_semester_index lw soup) =
       {i. i < length (paragraphs soup)
           \<and> (\<exists>pre post. lw (replace_char 160 32 (paragraphs soup ! i)) = pre @ semestr @ post)}"
    unfolding get_semester_index_filter by (auto simp: contains_iff)
qed

theorem get_semester_index_exact_witness:
  "get_semester_index lower_basic soup_mixed = [1]
   \<and> {i. i < length (paragraphs soup_mixed)
          \<and> (\<exists>pre post. lower_basic (replace_char 160 32 (paragraphs soup_mixed ! i))
                = pre @ semestr @ post)} = {1}"
proof -
  have m: "get_semester_index lower_basic soup_mixed = [1]" by code_simp
  from get_semester_index_exact [of lower_basic soup_mixed] m show ?thesis by simp
qed

text \<open>
  C7. The link extractor keeps a URL of the link container exactly when the URL has a
  dot and the lower-cased text after its last dot is \<open>xls\<close> or \<open>xlsx\<close>; the
  kept links are in the order of the document. In the example \<open>/b.XLS\<close> is
  kept, and \<open>nodot\<close>, \<open>/readme.pdf\<close> and \<open>/x.xlsx.bak\<close> are dropped without
  an error.
\<close>

theorem get_files_url_keeps_xls_xlsx:
  "clearfix soup = Some links \<Longrightarrow>
     get_files_url lw soup =
       Inr (filter (\<lambda>url. \<exists>pre suf. url = pre @ 46 # suf \<and> 46 \<notin> set suf
                            \<and> (lw suf = ascii ''xls'' \<or> lw suf = ascii ''xlsx'')) links)"
proof -
  assume c: "clearfix soup = Some links"
  have "(get_extension lw url = Some (ascii ''xls'') \<or> get_extension lw url = Some (ascii ''xlsx''))
        \<longleftrightarrow> (\<exists>pre suf. url = pre @ 46 # suf \<and> 46 \<notin> set suf
                  \<and> (lw suf = ascii ''xls'' \<or> lw suf = ascii ''xlsx''))" for url
    unfolding get_extension_iff by blast
  then show ?thesis using c by (simp add: get_files_url_def)
qed

theorem get_files_url_keeps_xls_xlsx_witness:
  "clearfix soup_mixed = Some [link_a, ascii ''/readme.pdf'', link_b, ascii ''nodot'',
                               ascii ''/x.xlsx.bak'', link_c]
   \<and> filter (\<lambda>url. \<exists>pre suf. url = pre @ 46 # suf \<and> 46 \<notin> set suf
                 \<and> (lower_basic suf = ascii ''xls'' \<or> lower_basic suf = ascii ''xlsx''))
        [link_a, ascii ''/readme.pdf'', link_b, ascii ''nodot'', ascii ''/x.xlsx.bak'', link_c]
      = [link_a, link_b, link_c]
   \<and> link_b = ascii ''/b.XLS''"
proof -
  have c: "clearfix soup_mixed = Some [link_a, ascii ''/readme.pdf'', link_b, ascii ''nodot'',
                               ascii ''/x.xlsx.bak'', link_c]"
    by (simp add: soup_mixed_def)
  have g: "get_files_url lower_basic soup_mixed = Inr [link_a, link_b, link_c]" by code_simp
  from get_files_url_keeps_xls_xlsx [OF c, of lower_basic] g c show ?thesis
    by (simp add: link_b_def)
qed

section \<open>The run: failed fetch and missing link container\<close>

text \<open>
  C9. Whenever the status code of the fetch is not 200, the run stops at once with the
  outcome \<open>FetchFailed\<close> and the world as it was: no directory is made and no file
  of any institute is saved. The run ends with \<open>FetchFailed\<close> only then, since
  \<open>check_response\<close> accepts the status code 200 and no other.
\<close>

theorem non_200_aborts_without_records:
  "(status_code html \<noteq> 200 \<longrightarrow> main lw semester translit html w = (w, FetchFailed))
   \<and> (snd (main lw semester translit html w) = FetchFailed \<longrightarrow> status_code html \<noteq> 200)
   \<and> check_response (status_code html) = (status_code html = 200)"
proof (intro conjI impI)
  assume "status_code html \<noteq> 200"
  then show "main lw semester translit html w = (w, FetchFailed)"
    by (simp add: main_def get_base_block_def check_response_def)
next
  assume f: "snd (main lw semester translit html w) = FetchFailed"
  show "status_code html \<noteq> 200"
  proof
    assume "status_code html = 200"
    then have "snd (main lw semester translit html w) \<noteq> FetchFailed"
      by (cases "su_column_content html")
         (simp_all add: main_def get_base_block_def check_response_def
            for_tags_never_fetch_failed)
    with f show False by simp
  qed
next
  show "check_response (status_code html) = (status_code html = 200)"
    by (simp add: check_response_def)
qed

theorem non_200_aborts_without_records_witness:
  "status_code page_404 \<noteq> 200
   \<and> main lower_basic 2 id page_404 world0 = (world0, FetchFailed)
   \<and> snd (main lower_basic 2 id page_404 world0) = FetchFailed"
proof -
  have s: "status_code page_404 \<noteq> 200" by (simp add: page_404_def)
  from non_200_aborts_without_records [of page_404 lower_basic 2 id world0] s
  show ?thesis by simp
qed

text \<open>
  C8, as the code has it. When a fragment has no link container and the semester
  function that is selected reads the links (two markers, or one marker when the second
  semester is selected), the error of the link extractor is not caught: the run ends
  with the \<open>AttributeError\<close> at that fragment. The files of the fragments before it
  have been saved; nothing is saved for it or for any fragment after it.
\<close>

theorem missing_container_stops_the_run:
  assumes "status_code html = 200"
      and "su_column_content html = Some (pre @ bad # post)"
      and "for_tags lw semester translit pre
             (w\<lparr>directories := directories w @ [ascii ''General'']\<rparr>) = (w', Finished)"
      and "clearfix bad = None"
      and "length (get_semester_index lw bad) = 2
           \<or> (semester \<noteq> 1 \<and> length (get_semester_index lw bad) = 1)"
  shows "main lw semester translit html w = (w', Raised AttributeError)"
proof -
  have "main lw semester translit html w =
          for_tags lw semester translit (pre @ bad # post)
            (w\<lparr>directories := directories w @ [ascii ''General'']\<rparr>)"
    using assms(1,2) by (simp add: main_def get_base_block_def check_response_def)
  also have "\<dots> = for_tags lw semester translit (bad # post) w'"
    using assms(3) by (rule for_tags_append)
  also have "\<dots> = (w', Raised AttributeError)"
    using process_tag_missing_container [OF assms(4,5), of translit w'] by simp
  finally show ?thesis .
qed

theorem missing_container_stops_the_run_witness:
  "status_code page_three = 200
   \<and> su_column_content page_three = Some ([soup_one] @ soup_broken # [soup_two0])
   \<and> clearfix soup_broken = None
   \<and> length (get_semester_index lower_basic soup_broken) = 1
   \<and> main lower_basic 2 id page_three world0 =
       (\<lparr>directories = [ascii ''General''],
         saved = [\<lparr>file_path = ascii ''Law'', file_index = 0,
                   file_url = ascii ''https://www.sevsu.ru/b.XLS'',
                   file_extension = Some (ascii ''xls'')\<rparr>]\<rparr>,
        Raised AttributeError)"
proof -
  let ?w = "\<lparr>directories = [ascii ''General''],
         saved = [\<lparr>file_path = ascii ''Law'', file_index = 0,
                   file_url = ascii ''https://www.sevsu.ru/b.XLS'',
                   file_extension = Some (ascii ''xls'')\<rparr>]\<rparr>"
  have a: "status_code page_three = 200" by (simp add: page_three_def)
  have b: "su_column_content page_three = Some ([soup_one] @ soup_broken # [soup_two0])"
    by (simp add: page_three_def)
  have c: "for_tags lower_basic 2 id [soup_one]
             (world0\<lparr>directories := directories world0 @ [ascii ''General'']\<rparr>) = (?w, Finished)"
    by code_simp
  have d: "clearfix soup_broken = None" by (simp add: soup_broken_def)
  have e1: "length (get_semester_index lower_basic soup_broken) = 1" by code_simp
  then have e: "length (get_semester_index lower_basic soup_broken) = 2
           \<or> ((2::int) \<noteq> 1 \<and> length (get_semester_index lower_basic soup_broken) = 1)" by simp
  from missing_container_stops_the_run [OF a b c d e] a b d e1 show ?thesis by simp
qed

text \<open>
  C8, as stated, fails: of three fragments the second has no link container; the run
  ends with the error after the files of the first, and the third fragment, whose
  second-semester links are \<open>/b.XLS\<close> and \<open>/c.xlsx\<close>, is never processed.
\<close>

theorem missing_container_not_caught:
  "main lower_basic 2 id page_three world0 =
       (\<lparr>directories = [ascii ''General''],
         saved = [\<lparr>file_path = ascii ''Law'', file_index = 0,
                   file_url = ascii ''https://www.sevsu.ru/b.XLS'',
                   file_extension = Some (ascii ''xls'')\<rparr>]\<rparr>,
        Raised AttributeError)
   \<and> get_schedule_from_second_semester lower_basic soup_two0 = Inr [link_b, link_c]"
  by code_simp

section \<open>The INSERT statement of db.py\<close>

text \<open>
  C10. For every table name and every non-empty keyword mapping, the string built by
  \<open>insert_datas_to_db\<close> is \<open>INSERT INTO name (\<close>, the keys of the mapping
  separated by a comma and a space, \<open>)\<close>, a line break, \<open>VALUES (\<close>, the values
  of the mapping each between single quotes and separated by a comma and a space,
  \<open>);\<close>: as many values as keys, in the order of the mapping on both sides.
\<close>

theorem insert_statement_lists_keys_and_values:
  assumes "kwargs \<noteq> []"
  shows "insert_datas_to_db fmt name kwargs = insert_statement fmt name kwargs
         \<and> length (map fst kwargs) = length (map (\<lambda>kv. [39] @ fmt (snd kv) @ [39]) kwargs)"
proof -
  define sep where "sep = ascii '', ''"
  define X where "X = (ascii ''INSERT INTO '' @ name @ ascii '' ('') @ join sep (map fst kwargs)"
  define V where "V = join sep (map (\<lambda>kv. [39] @ fmt (snd kv) @ [39]) kwargs)"
  have len: "length sep = 2" by (simp add: sep_def ascii_def)
  have k: "concat (map (\<lambda>kv. fst kv @ sep) kwargs) = join sep (map fst kwargs) @ sep"
    using concat_sep_join [of "map fst kwargs" sep] assms by (simp add: comp_def)
  have v: "concat (map (\<lambda>kv. ([39] @ fmt (snd kv) @ [39]) @ sep) kwargs) = V @ sep"
    using concat_sep_join [of "map (\<lambda>kv. [39] @ fmt (snd kv) @ [39]) kwargs" sep] assms
    by (simp add: comp_def V_def)
  have loop: "insert_loop fmt kwargs (ascii ''INSERT INTO '' @ name @ ascii '' ('', [])
                = (X @ sep, V @ sep)"
    unfolding insert_loop_concat sep_def [symmetric] k v by (simp add: X_def)
  have r: "X @ ascii '')'' @ [10] @ ascii ''VALUES ('' @ V @ sep
             = (X @ ascii '')'' @ [10] @ ascii ''VALUES ('' @ V) @ sep"
    by simp
  have "insert_datas_to_db fmt name kwargs =
          slice_to (slice_to (X @ sep) (- 2) @ ascii '')'' @ [10] @ ascii ''VALUES ('' @ V @ sep)
            (- 2) @ ascii '');''"
    unfolding insert_datas_to_db_def loop by (simp only: prod.case Let_def)
  also have "\<dots> = slice_to ((X @ ascii '')'' @ [10] @ ascii ''VALUES ('' @ V) @ sep) (- 2)
                     @ ascii '');''"
    by (simp only: slice_to_minus_two [OF len] r)
  also have "\<dots> = (X @ ascii '')'' @ [10] @ ascii ''VALUES ('' @ V) @ ascii '');''"
    by (simp only: slice_to_minus_two [OF len])
  also have "\<dots> = insert_statement fmt name kwargs"
    by (simp add: insert_statement_def X_def V_def sep_def)
  finally show ?thesis by simp
qed

theorem insert_statement_lists_keys_and_values_witness:
  "[(ascii ''day'', ascii ''1''), (ascii ''lesson_number'', ascii ''2'')] \<noteq> []
   \<and> insert_datas_to_db id (ascii ''pair'')
        [(ascii ''day'', ascii ''1''), (ascii ''lesson_number'', ascii ''2'')]
      = ascii ''INSERT INTO pair (day, lesson_number)'' @ [10]
          @ ascii ''VALUES ('' @ [39] @ ascii ''1'' @ [39] @ ascii '', ''
          @ [39] @ ascii ''2'' @ [39] @ ascii '');''"
proof -
  have n: "[(ascii ''day'', ascii ''1''), (ascii ''lesson_number'', ascii ''2'')] \<noteq> []"
    by simp
  have "insert_statement id (ascii ''pair'')
          [(ascii ''day'', ascii ''1''), (ascii ''lesson_number'', ascii ''2'')]
        = ascii ''INSERT INTO pair (day, lesson_number)'' @ [10]
          @ ascii ''VALUES ('' @ [39] @ ascii ''1'' @ [39] @ ascii '', ''
          @ [39] @ ascii ''2'' @ [39] @ ascii '');''"
    by (simp add: insert_statement_def ascii_def)
  with insert_statement_lists_keys_and_values [OF n, of id "ascii ''pair''"] show ?thesis
    by simp
qed

end
